theory Spec2Isabelle
  imports Main "HOL-Library.Sublist"
begin

section \<open>Data model\<close>

text \<open>
  The script \<^verbatim>\<open>MUSIC_PRODUCER_SEARCH.py\<close> talks to the Genius web API and writes a CSV
  file. A string is the UTF-8 bytes of the Python string (\<^typ>\<open>string\<close>): a string
  occurs inside another exactly when its bytes occur inside the other's bytes, and the
  file is written in this encoding. Identifiers are Python integers
  (\<^typ>\<open>int\<close>), and the JSON objects the code reads are records holding the fields it
  reads. A field the code reads with \<^verbatim>\<open>.get\<close> is optional, \<open>None\<close> standing for a
  missing key.
\<close>

type_synonym token = string

text \<open>An artist object: the keys \<^verbatim>\<open>id\<close> and \<^verbatim>\<open>name\<close>.\<close>

record artist =
  artist_id :: int
  artist_name :: string

text \<open>A search hit; \<open>primary_artist\<close> is \<^verbatim>\<open>hit["result"]["primary_artist"]\<close>.\<close>

record search_hit =
  primary_artist :: artist

text \<open>An item of the songs-by-artist listing; only its \<^verbatim>\<open>id\<close> is read.\<close>

record song_stub =
  stub_id :: int

text \<open>The \<^verbatim>\<open>response.song\<close> object of the song-detail endpoint.\<close>

record song_detail =
  title :: string
  detail_artist :: artist
  producer_artists :: "artist list option"
  release_date :: "string option"
  url :: string

text \<open>
  Every exception the script can end with: the two that \<^verbatim>\<open>requests\<close> raises (an error
  status carries its code), the \<^verbatim>\<open>ValueError\<close> of the resolver and of the CSV writer,
  the exit of \<^verbatim>\<open>argparse\<close>'s \<^verbatim>\<open>error\<close>, and a failed \<^verbatim>\<open>open\<close>.
\<close>

datatype error =
    HTTPError nat
  | ConnectionError
  | ValueError string
  | SystemExit nat
  | OSError string

fun transport_error :: "error \<Rightarrow> bool" where
  "transport_error (HTTPError c) = True"
| "transport_error ConnectionError = True"
| "transport_error e = False"

section \<open>The remote API\<close>

text \<open>
  What \<^verbatim>\<open>requests.get\<close> gives back: a response with its status code and its decoded
  JSON body, or no response at all.
\<close>

datatype 'a http = Response (status_code: nat) (json: 'a) | NoResponse

text \<open>
  The three endpoints the script calls, each a function of the bearer token and of the
  parameters the script sends: \<^verbatim>\<open>/search?q=\<close>, \<^verbatim>\<open>/artists/{id}/songs?per_page=&page=\<close>
  and \<^verbatim>\<open>/songs/{id}\<close>. The body is already the part the code selects from it
  (\<^verbatim>\<open>response.hits\<close>, \<^verbatim>\<open>response.songs\<close>, \<^verbatim>\<open>response.song\<close>).
\<close>

record genius =
  search :: "token \<Rightarrow> string \<Rightarrow> search_hit list http"
  artist_songs :: "token \<Rightarrow> int \<Rightarrow> nat \<Rightarrow> nat \<Rightarrow> song_stub list http"
  song :: "token \<Rightarrow> int \<Rightarrow> song_detail http"

text \<open>
  \<^verbatim>\<open>resp.raise_for_status()\<close> raises \<^verbatim>\<open>HTTPError\<close> for a status from 400 to 599 and
  returns otherwise.
\<close>

definition raise_for_status :: "'a http \<Rightarrow> error + 'a" where
  "raise_for_status resp =
     (case resp of
        NoResponse \<Rightarrow> Inl ConnectionError
      | Response c body \<Rightarrow> if 400 \<le> c \<and> c < 600 then Inl (HTTPError c) else Inr body)"

text \<open>
  \<^verbatim>\<open>request_genius(path, token, params)\<close>: the path and the parameters select the
  endpoint function \<open>get\<close>, which is sent the token.
\<close>

definition request_genius :: "(token \<Rightarrow> 'a http) \<Rightarrow> token \<Rightarrow> error + 'a" where
  "request_genius get tok = raise_for_status (get tok)"

section \<open>Identity Resolver\<close>

text \<open>
  \<^verbatim>\<open>str.lower\<close> goes through the string and replaces what stands at each position by its
  lower-case mapping in the Unicode database; the mapping of a character can be longer
  than the character, and that of a capital sigma depends on its neighbours. The
  database is no part of the script, so it is a parameter: \<open>cm s i\<close> is what the database
  makes of position \<open>i\<close> of the string \<open>s\<close> (of a byte inside a character: nothing). What
  is proved below holds for every such mapping.
\<close>

type_synonym casemap = "string \<Rightarrow> nat \<Rightarrow> string"

definition lower :: "casemap \<Rightarrow> string \<Rightarrow> string" where
  "lower cm s = concat (map (cm s) [0..<length s])"

text \<open>The apostrophe that the messages put around a name.\<close>

definition apos :: string where
  "apos = [CHR 0x27]"

text \<open>
  The loop over the hits of \<^verbatim>\<open>find_producer_id\<close>; \<^verbatim>\<open>a in b\<close> on strings is
  \<^const>\<open>sublist\<close>. Leaving the loop without a match raises the \<^verbatim>\<open>ValueError\<close>.
\<close>

fun find_hit :: "casemap \<Rightarrow> string \<Rightarrow> search_hit list \<Rightarrow> error + (int \<times> string)" where
  "find_hit cm name [] =
     Inl (ValueError (''No producer artist found for '' @ apos @ name @ apos))"
| "find_hit cm name (hit # hits) =
     (let artist = primary_artist hit in
      if sublist (lower cm name) (lower cm (artist_name artist))
      then Inr (artist_id artist, artist_name artist)
      else find_hit cm name hits)"

definition find_producer_id ::
  "casemap \<Rightarrow> genius \<Rightarrow> string \<Rightarrow> token \<Rightarrow> error + (int \<times> string)" where
  "find_producer_id cm api name tok =
     (case request_genius (\<lambda>t. search api t name) tok of
        Inl e \<Rightarrow> Inl e
      | Inr hits \<Rightarrow> find_hit cm name hits)"

section \<open>Catalog Paginator\<close>

text \<open>
  The \<^verbatim>\<open>while True\<close> loop of \<^verbatim>\<open>fetch_all_songs_for_artist\<close>, with its two variables
  \<open>page\<close> and \<open>all_songs\<close>. Nothing bounds the loop, so it is a partial function:
  \<open>None\<close> is a run that never leaves it. A failed request ends the run with the error.
  The pause of \<^verbatim>\<open>time.sleep\<close> changes no value and is left out, here and in the filter.
\<close>

partial_function (option) fetch_pages ::
  "genius \<Rightarrow> int \<Rightarrow> token \<Rightarrow> nat \<Rightarrow> song_stub list \<Rightarrow> (error + song_stub list) option"
where
  "fetch_pages api artist tok page all_songs =
     (case request_genius (\<lambda>t. artist_songs api t artist 50 page) tok of
        Inl e \<Rightarrow> Some (Inl e)
      | Inr songs \<Rightarrow>
          if songs = [] then Some (Inr all_songs)
          else fetch_pages api artist tok (page + 1) (all_songs @ songs))"

declare fetch_pages.simps [code]

definition fetch_all_songs_for_artist ::
  "genius \<Rightarrow> int \<Rightarrow> token \<Rightarrow> (error + song_stub list) option" where
  "fetch_all_songs_for_artist api artist tok = fetch_pages api artist tok 1 []"

section \<open>Producer Filter\<close>

text \<open>A value of an output dictionary: the song identifier is a number, the rest text.\<close>

datatype pyval = PyInt int | PyStr string

text \<open>A dictionary with its keys in insertion order.\<close>

type_synonym pydict = "(string \<times> pyval) list"

text \<open>\<^verbatim>\<open>sep.join(xs)\<close>.\<close>

fun join :: "string \<Rightarrow> string list \<Rightarrow> string" where
  "join sep [] = []"
| "join sep [x] = x"
| "join sep (x # y # ys) = x @ sep @ join sep (y # ys)"

text \<open>\<^verbatim>\<open>detail.get("producer_artists", [])\<close>.\<close>

definition credits :: "song_detail \<Rightarrow> artist list" where
  "credits detail = (case producer_artists detail of None \<Rightarrow> [] | Some ps \<Rightarrow> ps)"

text \<open>
  The dictionary appended for a matching song; \<open>producers\<close> is the list of names
  computed before the test. \<^verbatim>\<open>detail.get("release_date") or ""\<close> turns a missing date
  into the empty string.
\<close>

definition output_record :: "int \<Rightarrow> song_detail \<Rightarrow> string list \<Rightarrow> pydict" where
  "output_record sid detail producers =
     [(''song_id'', PyInt sid),
      (''title'', PyStr (title detail)),
      (''primary_artist'', PyStr (artist_name (detail_artist detail))),
      (''producers'', PyStr (join ''; '' producers)),
      (''release_date'', PyStr (case release_date detail of None \<Rightarrow> [] | Some d \<Rightarrow> d)),
      (''url'', PyStr (url detail))]"

text \<open>The \<^verbatim>\<open>for\<close> loop of \<^verbatim>\<open>filter_songs_by_producer\<close> over the stubs left, with \<open>filtered\<close>.\<close>

fun filter_loop ::
  "genius \<Rightarrow> int \<Rightarrow> token \<Rightarrow> song_stub list \<Rightarrow> pydict list \<Rightarrow> error + pydict list" where
  "filter_loop api producer_id tok [] filtered = Inr filtered"
| "filter_loop api producer_id tok (s # rest) filtered =
     (let sid = stub_id s in
      case request_genius (\<lambda>t. song api t sid) tok of
        Inl e \<Rightarrow> Inl e
      | Inr detail \<Rightarrow>
          let producers = map artist_name (credits detail);
              producer_ids = map artist_id (credits detail)
          in filter_loop api producer_id tok rest
               (if producer_id \<in> set producer_ids
                then filtered @ [output_record sid detail producers]
                else filtered))"

definition filter_songs_by_producer ::
  "genius \<Rightarrow> song_stub list \<Rightarrow> int \<Rightarrow> token \<Rightarrow> error + pydict list" where
  "filter_songs_by_producer api song_list producer_id tok =
     filter_loop api producer_id tok song_list []"

section \<open>Exporter\<close>

text \<open>\<^verbatim>\<open>str\<close> of an integer, in decimal.\<close>

function str_nat :: "nat \<Rightarrow> string" where
  "str_nat n =
     (if n < 10 then [''0123456789'' ! n]
      else str_nat (n div 10) @ [''0123456789'' ! (n mod 10)])"
  by pat_completeness auto
termination
  by (relation "measure id") auto

declare str_nat.simps [simp del]

definition str_int :: "int \<Rightarrow> string" where
  "str_int i = (if i < 0 then CHR ''-'' # str_nat (nat (- i)) else str_nat (nat i))"

text \<open>The text the CSV writer makes of a value: a string as it is, a number by \<^verbatim>\<open>str\<close>.\<close>

fun str_of :: "pyval \<Rightarrow> string" where
  "str_of (PyStr s) = s"
| "str_of (PyInt i) = str_int i"

text \<open>
  \<^verbatim>\<open>csv.writer\<close> in its default dialect: the delimiter is a comma, the quote character
  a double quote, the line terminator CR LF, and the quoting minimal. A field is put in
  quotes when it holds the delimiter, the quote character or a character of the line
  terminator; a quote character inside is doubled.
\<close>

definition special :: "char \<Rightarrow> bool" where
  "special c = (c = CHR '','' \<or> c = CHR 0x22 \<or> c = CHR 0x0D \<or> c = CHR 0x0A)"

definition csv_field :: "string \<Rightarrow> string" where
  "csv_field s =
     (if list_ex special s
      then [CHR 0x22] @ concat (map (\<lambda>c. if c = CHR 0x22 then [c, c] else [c]) s) @ [CHR 0x22]
      else s)"

text \<open>
  The text of one \<^verbatim>\<open>writerow\<close>: the fields joined by commas, then the line terminator.
  A row of one empty field is written as a pair of quotes.
\<close>

definition writerow :: "string list \<Rightarrow> string" where
  "writerow row =
     (let rec = join '','' (map csv_field row)
      in (if row \<noteq> [] \<and> rec = [] then [CHR 0x22, CHR 0x22] else rec) @ [CHR 0x0D, CHR 0x0A])"

text \<open>
  \<^verbatim>\<open>DictWriter._dict_to_list\<close>: a key that is no field name raises \<^verbatim>\<open>ValueError\<close> (the
  message goes on with the keys, in no fixed order, and stops here at the colon); a field
  name the row lacks gives the empty string.
\<close>

definition dict_to_list :: "string list \<Rightarrow> pydict \<Rightarrow> error + string list" where
  "dict_to_list fieldnames rowdict =
     (if list_ex (\<lambda>k. k \<notin> set fieldnames) (map fst rowdict)
      then Inl (ValueError ''dict contains fields not in fieldnames: '')
      else Inr (map (\<lambda>key. case map_of rowdict key of None \<Rightarrow> [] | Some v \<Rightarrow> str_of v)
                  fieldnames))"

text \<open>
  \<^verbatim>\<open>writer.writerows(records)\<close> on the text \<open>f\<close> written so far: the rows are converted
  and written one after the other, so the rows before a bad one stay written.
\<close>

fun writerows :: "string list \<Rightarrow> pydict list \<Rightarrow> string \<Rightarrow> (error + unit) \<times> string" where
  "writerows fieldnames [] f = (Inr (), f)"
| "writerows fieldnames (r # rs) f =
     (case dict_to_list fieldnames r of
        Inl e \<Rightarrow> (Inl e, f)
      | Inr vals \<Rightarrow> writerows fieldnames rs (f @ writerow vals))"

text \<open>
  What the script changes outside itself: the files (a path has a content or does not
  exist), and the lines printed. \<open>can_open\<close> tells whether \<^verbatim>\<open>open(path, "w")\<close> succeeds.
\<close>

record world =
  files :: "string \<Rightarrow> string option"
  can_open :: "string \<Rightarrow> bool"
  stdout :: "string list"

definition print :: "string \<Rightarrow> world \<Rightarrow> world" where
  "print line w = w\<lparr>stdout := stdout w @ [line]\<rparr>"

text \<open>
  \<^verbatim>\<open>save_to_csv\<close>. The field names are the keys of the first record, and
  \<^verbatim>\<open>writeheader\<close> writes them as a row. The file is opened with \<^verbatim>\<open>newline=""\<close>, so the
  text is stored as written; it is closed when the \<^verbatim>\<open>with\<close> block is left, also by an
  exception.
\<close>

definition save_to_csv :: "pydict list \<Rightarrow> string \<Rightarrow> world \<Rightarrow> (error + unit) \<times> world" where
  "save_to_csv records path w =
     (case records of
        [] \<Rightarrow> (Inr (), print ''No records to write.'' w)
      | first # _ \<Rightarrow>
          if \<not> can_open w path then (Inl (OSError path), w)
          else
            let fieldnames = map fst first;
                header = writerow fieldnames;
                (r, f) = writerows fieldnames records header
            in (r, w\<lparr>files := (files w)(path \<mapsto> f)\<rparr>))"

section \<open>Orchestration\<close>

text \<open>
  The parsed command line: \<open>arg_token\<close> is the \<^verbatim>\<open>--token\<close> option or else the environment
  variable, \<open>arg_output\<close> the \<^verbatim>\<open>--output\<close> option or else \<^verbatim>\<open>songs_by_producer.csv\<close>.
\<close>

record args =
  arg_producer :: string
  arg_token :: "string option"
  arg_output :: string

text \<open>The three bytes of the ellipsis character that ends some of the messages.\<close>

definition ellipsis :: string where
  "ellipsis = [CHR 0xE2, CHR 0x80, CHR 0xA6]"

text \<open>
  \<^verbatim>\<open>main\<close>, after \<^verbatim>\<open>parse_args\<close>. \<^verbatim>\<open>p.error\<close> leaves with exit status 2. An exception
  of a stage ends the run there, with the world as it then is. \<open>None\<close> is a run that stays
  in the paginator for ever.
\<close>

definition main ::
  "casemap \<Rightarrow> genius \<Rightarrow> args \<Rightarrow> world \<Rightarrow> ((error + unit) \<times> world) option" where
  "main cm api a w =
     (case arg_token a of
        None \<Rightarrow> Some (Inl (SystemExit 2), w)
      | Some tok \<Rightarrow>
          (if tok = [] then Some (Inl (SystemExit 2), w)
           else
             (let w1 = print (''Looking up producer '' @ apos @ arg_producer a @ apos @ ellipsis) w
              in (case find_producer_id cm api (arg_producer a) tok of
                    Inl e \<Rightarrow> Some (Inl e, w1)
                  | Inr (pid, pname) \<Rightarrow>
                      (let w2 = print (''Found producer ID '' @ str_int pid @ '' ('' @ pname
                                         @ ''). Fetching song list'' @ ellipsis) w1
                       in (case fetch_all_songs_for_artist api pid tok of
                             None \<Rightarrow> None
                           | Some (Inl e) \<Rightarrow> Some (Inl e, w2)
                           | Some (Inr all_songs) \<Rightarrow>
                               (let w3 = print (''Got '' @ str_nat (length all_songs)
                                                  @ '' total songs associated with artist ID ''
                                                  @ str_int pid @ ''.'') w2;
                                    w4 = print (''Filtering songs where this artist is credited as producer''
                                                  @ ellipsis) w3
                                in (case filter_songs_by_producer api all_songs pid tok of
                                      Inl e \<Rightarrow> Some (Inl e, w4)
                                    | Inr produced \<Rightarrow>
                                        (let w5 = print (str_nat (length produced)
                                                           @ '' songs found where '' @ apos @ pname
                                                           @ apos @ '' is a producer.'') w4;
                                             w6 = print (''Writing to '' @ apos @ arg_output a @ apos
                                                           @ ellipsis) w5
                                         in (case save_to_csv produced (arg_output a) w6 of
                                               (Inl e, w7) \<Rightarrow> Some (Inl e, w7)
                                             | (Inr u, w7) \<Rightarrow>
                                                 Some (Inr (), print ''Done.'' w7)))))))))))"

section \<open>Lines of a text file\<close>

text \<open>
  How a text divides into lines when it is read: a line ends with CR LF, with LF or
  with CR, and what follows the last of these, if anything, is a last line. The line
  count of a file is the number of these lines.
\<close>

fun text_lines :: "string \<Rightarrow> string list" where
  "text_lines [] = []"
| "text_lines (c # cs) =
     (if c = CHR 0x0A then [] # text_lines cs
      else if c = CHR 0x0D then
        (case cs of
           [] \<Rightarrow> [[]]
         | d # ds \<Rightarrow> if d = CHR 0x0A then [] # text_lines ds else [] # text_lines cs)
      else (case text_lines cs of [] \<Rightarrow> [[c]] | l # ls \<Rightarrow> (c # l) # ls))"

text \<open>A string with no line break in it.\<close>

definition no_line_break :: "string \<Rightarrow> bool" where
  "no_line_break s = (CHR 0x0D \<notin> set s \<and> CHR 0x0A \<notin> set s)"

section \<open>A test server\<close>

text \<open>
  A fixed server for the concrete runs below. The search answers with three hits. The
  artist 42 has three songs on two pages, and is credited as a producer on the songs 1
  and 3; the song 2 has no list of producers at all. The artist 7 has two songs on one
  page, the second of which (the song 4) cannot be fetched.
\<close>

definition metro :: artist where
  "metro = \<lparr>artist_id = 42, artist_name = ''Metro Boomin''\<rparr>"

definition dean :: artist where
  "dean = \<lparr>artist_id = 7, artist_name = ''Mike Dean''\<rparr>"

definition song1 :: song_detail where
  "song1 = \<lparr>title = ''Mask Off'', detail_artist = \<lparr>artist_id = 3, artist_name = ''Future''\<rparr>,
             producer_artists = Some [metro], release_date = Some ''2017-02-17'',
             url = ''https://genius.com/1''\<rparr>"

definition song2 :: song_detail where
  "song2 = \<lparr>title = ''Skit'', detail_artist = metro,
             producer_artists = None, release_date = None, url = ''https://genius.com/2''\<rparr>"

definition song3 :: song_detail where
  "song3 = \<lparr>title = ''Runnin, Again'', detail_artist = \<lparr>artist_id = 4, artist_name = ''21 Savage''\<rparr>,
             producer_artists = Some [dean, metro], release_date = None,
             url = ''https://genius.com/3''\<rparr>"

text \<open>A song whose title has a line feed in it.\<close>

definition song5 :: song_detail where
  "song5 = \<lparr>title = ''Intro'' @ [CHR 0x0A] @ ''Outro'',
             detail_artist = \<lparr>artist_id = 3, artist_name = ''Future''\<rparr>,
             producer_artists = Some [metro], release_date = None,
             url = ''https://genius.com/5''\<rparr>"

definition scenario :: genius where
  "scenario =
     \<lparr>search = (\<lambda>t q. Response 200
         [\<lparr>primary_artist = dean\<rparr>, \<lparr>primary_artist = metro\<rparr>,
          \<lparr>primary_artist = \<lparr>artist_id = 99, artist_name = ''Young Metro''\<rparr>\<rparr>]),
      artist_songs = (\<lambda>t a per_page p.
         if a = 42 \<and> p = 1 then Response 200 [\<lparr>stub_id = 1\<rparr>, \<lparr>stub_id = 2\<rparr>]
         else if a = 42 \<and> p = 2 then Response 200 [\<lparr>stub_id = 3\<rparr>]
         else if a = 7 \<and> p = 1 then Response 200 [\<lparr>stub_id = 1\<rparr>, \<lparr>stub_id = 4\<rparr>]
         else Response 200 []),
      song = (\<lambda>t i.
         if i = 1 then Response 200 song1
         else if i = 2 then Response 200 song2
         else if i = 3 then Response 200 song3
         else Response 503 song2)\<rparr>"

text \<open>
  On ASCII text the Unicode database maps the letters A to Z to a to z and leaves every
  other character. This is the table of the concrete runs, whose strings are all ASCII.
\<close>

definition ascii_casemap :: casemap where
  "ascii_casemap s i =
     (let n = (of_char (s ! i) :: nat)
      in [if 65 \<le> n \<and> n \<le> 90 then char_of (n + 32) else s ! i])"

text \<open>The detail of each song that can be fetched.\<close>

definition details :: "int \<Rightarrow> song_detail" where
  "details i = (if i = 1 then song1 else if i = 2 then song2 else song3)"

text \<open>The world before a run: no file yet, every path can be opened, nothing printed.\<close>

definition nothing :: world where
  "nothing = \<lparr>files = (\<lambda>p. None), can_open = (\<lambda>p. True), stdout = []\<rparr>"

section \<open>Properties of the stages\<close>

subsection \<open>Requests\<close>

lemma request_genius_transport:
  "request_genius get tok = Inl e \<Longrightarrow> transport_error e"
  by (auto simp: request_genius_def raise_for_status_def split: http.splits if_splits)

lemma files_print [simp]: "files (print line w) = files w"
  by (simp add: print_def)

subsection \<open>The loop of the resolver\<close>


lemma find_hit_none:
  assumes "\<forall>h\<in>set hits. \<not> sublist (lower cm name) (lower cm (artist_name (primary_artist h)))"
  shows "find_hit cm name hits =
     Inl (ValueError (''No producer artist found for '' @ apos @ name @ apos))"
  using assms by (induction hits) (simp_all add: Let_def)

subsection \<open>The loop of the paginator\<close>

text \<open>
  From any page on: when the pages up to \<open>k\<close> hold items and the page \<open>k\<close> is empty, the
  loop returns what it had, followed by those pages in their order.
\<close>

lemma fetch_pages_concat:
  assumes "\<forall>p. page \<le> p \<and> p < k \<longrightarrow>
             request_genius (\<lambda>t. artist_songs api t artist 50 p) tok = Inr (pages p) \<and>
             pages p \<noteq> []"
    and "request_genius (\<lambda>t. artist_songs api t artist 50 k) tok = Inr []"
    and "page \<le> k"
  shows "fetch_pages api artist tok page all_songs =
     Some (Inr (all_songs @ concat (map pages [page..<k])))"
  using assms
proof (induction "k - page" arbitrary: page all_songs)
  case 0
  then have "page = k" by simp
  with "0.prems"(2) show ?case by (subst fetch_pages.simps) simp
next
  case (Suc d)
  then have lt: "page < k" by simp
  with Suc.prems(1)
  have here: "request_genius (\<lambda>t. artist_songs api t artist 50 page) tok = Inr (pages page)"
    and ne: "pages page \<noteq> []" by auto
  have "fetch_pages api artist tok (page + 1) (all_songs @ pages page) =
          Some (Inr ((all_songs @ pages page) @ concat (map pages [page + 1..<k])))"
    using Suc.hyps(2) Suc.prems lt by (intro Suc.hyps(1)) auto
  with here ne lt show ?case
    by (subst fetch_pages.simps) (simp add: upt_conv_Cons)
qed

text \<open>An empty page ahead is enough for the loop to end, whatever comes before it.\<close>

lemma fetch_pages_returns:
  assumes "request_genius (\<lambda>t. artist_songs api t artist 50 n) tok = Inr []"
    and "page \<le> n"
  shows "\<exists>r. fetch_pages api artist tok page all_songs = Some r"
  using assms
proof (induction "n - page" arbitrary: page all_songs)
  case 0
  then have "page = n" by simp
  with "0.prems"(1) show ?case by (subst fetch_pages.simps) simp
next
  case (Suc d)
  then have "\<exists>r. fetch_pages api artist tok (page + 1) (all_songs @ songs) = Some r" for songs
    by (intro Suc.hyps(1)) auto
  then show ?case
    by (subst fetch_pages.simps) (simp split: sum.splits)
qed

lemma fetch_pages_returns_list:
  assumes "request_genius (\<lambda>t. artist_songs api t artist 50 n) tok = Inr []"
    and "\<forall>p. page \<le> p \<and> p < n \<longrightarrow>
           (\<exists>songs. request_genius (\<lambda>t. artist_songs api t artist 50 p) tok = Inr songs)"
    and "page \<le> n"
  shows "\<exists>songs. fetch_pages api artist tok page all_songs = Some (Inr songs)"
  using assms
proof (induction "n - page" arbitrary: page all_songs)
  case 0
  then have "page = n" by simp
  with "0.prems"(1) show ?case by (subst fetch_pages.simps) simp
next
  case (Suc d)
  then have lt: "page < n" by simp
  with Suc.prems(2) obtain songs
    where here: "request_genius (\<lambda>t. artist_songs api t artist 50 page) tok = Inr songs"
    by auto
  have "\<exists>r. fetch_pages api artist tok (page + 1) (all_songs @ songs) = Some (Inr r)"
    using Suc.hyps(2) Suc.prems lt by (intro Suc.hyps(1)) auto
  with here show ?case
    by (subst fetch_pages.simps) simp
qed

subsection \<open>The loop of the filter\<close>

lemma filter_loop_all_fetched:
  assumes "\<forall>s\<in>set song_list.
             request_genius (\<lambda>t. song api t (stub_id s)) tok = Inr (detail (stub_id s))"
  shows "filter_loop api pid tok song_list filtered =
     Inr (filtered @
          map (\<lambda>s. output_record (stub_id s) (detail (stub_id s))
                      (map artist_name (credits (detail (stub_id s)))))
            (filter (\<lambda>s. pid \<in> set (map artist_id (credits (detail (stub_id s)))))
               song_list))"
  using assms
  by (induction song_list arbitrary: filtered) (simp_all add: Let_def)

lemma filter_loop_failure:
  assumes "s \<in> set song_list"
    and "request_genius (\<lambda>t. song api t (stub_id s)) tok = Inl e"
  shows "\<exists>e'. filter_loop api pid tok song_list filtered = Inl e' \<and> transport_error e'"
  using assms
proof (induction song_list arbitrary: filtered)
  case Nil
  then show ?case by simp
next
  case (Cons x xs)
  show ?case
  proof (cases "request_genius (\<lambda>t. song api t (stub_id x)) tok")
    case (Inl e0)
    then show ?thesis by (simp add: request_genius_transport)
  next
    case (Inr d)
    with Cons.prems have "s \<in> set xs" by auto
    from Cons.IH [OF this Cons.prems(2)] Inr show ?thesis by (simp add: Let_def)
  qed
qed

lemma filter_loop_skip:
  assumes "request_genius (\<lambda>t. song api t (stub_id s)) tok = Inr d"
    and "producer_artists d = None"
  shows "filter_loop api pid tok (xs @ s # ys) filtered =
         filter_loop api pid tok (xs @ ys) filtered"
  using assms
proof (induction xs arbitrary: filtered)
  case Nil
  then show ?case by (simp add: Let_def credits_def)
next
  case (Cons x xs)
  then show ?case by (simp add: Let_def split: sum.splits)
qed

subsection \<open>The rows of the exporter\<close>

lemma keys_output_record:
  "map fst (output_record sid d ps) =
     [''song_id'', ''title'', ''primary_artist'', ''producers'', ''release_date'', ''url'']"
  by (simp add: output_record_def)

lemma dict_to_list_output_record:
  "dict_to_list [''song_id'', ''title'', ''primary_artist'', ''producers'', ''release_date'', ''url'']
     (output_record sid d ps) =
   Inr [str_int sid, title d, artist_name (detail_artist d), join ''; '' ps,
        (case release_date d of None \<Rightarrow> [] | Some x \<Rightarrow> x), url d]"
  by (simp add: dict_to_list_def output_record_def)

lemma writerows_output_records:
  "writerows [''song_id'', ''title'', ''primary_artist'', ''producers'', ''release_date'', ''url'']
     (map (\<lambda>(sid, d). output_record sid d (map artist_name (credits d))) items) f =
   (Inr (), f @ concat (map (\<lambda>(sid, d). writerow
        [str_int sid, title d, artist_name (detail_artist d),
         join ''; '' (map artist_name (credits d)),
         (case release_date d of None \<Rightarrow> [] | Some x \<Rightarrow> x), url d]) items))"
proof (induction items arbitrary: f)
  case Nil
  then show ?case by simp
next
  case (Cons it items)
  obtain sid d where it: "it = (sid, d)" by (cases it)
  show ?case
    unfolding it
    by (simp only: list.map prod.case writerows.simps dict_to_list_output_record sum.case
          Cons.IH concat.simps append_assoc)
qed

lemma save_to_csv_output:
  assumes "items \<noteq> []" and "can_open w path"
  shows "save_to_csv (map (\<lambda>(sid, d). output_record sid d (map artist_name (credits d))) items)
           path w =
     (Inr (), w\<lparr>files := (files w)(path \<mapsto>
        concat (map writerow
          ([''song_id'', ''title'', ''primary_artist'', ''producers'', ''release_date'', ''url''] #
           map (\<lambda>(sid, d). [str_int sid, title d, artist_name (detail_artist d),
                   join ''; '' (map artist_name (credits d)),
                   (case release_date d of None \<Rightarrow> [] | Some x \<Rightarrow> x), url d]) items)))\<rparr>)"
proof -
  obtain sid d rest where items: "items = (sid, d) # rest"
    using assms(1) by (cases items) auto
  let ?recs = "map (\<lambda>(sid, d). output_record sid d (map artist_name (credits d))) items"
  have recs: "?recs = output_record sid d (map artist_name (credits d)) #
                map (\<lambda>(sid, d). output_record sid d (map artist_name (credits d))) rest"
    by (simp add: items)
  have "save_to_csv ?recs path w =
      (let (r, f) = writerows
             [''song_id'', ''title'', ''primary_artist'', ''producers'', ''release_date'', ''url'']
             ?recs
             (writerow
               [''song_id'', ''title'', ''primary_artist'', ''producers'', ''release_date'', ''url''])
       in (r, w\<lparr>files := (files w)(path \<mapsto> f)\<rparr>))"
    unfolding save_to_csv_def recs using assms(2)
    by (simp only: list.case keys_output_record Let_def if_False not_True_eq_False simp_thms)
  then show ?thesis
    by (simp only: writerows_output_records prod.case Let_def list.map concat.simps map_map o_def)
       (simp add: case_prod_unfold)
qed

text \<open>A row of two fields or more is its fields, quoted where needed, with commas between.\<close>

lemma join_two_not_empty: "sep \<noteq> [] \<Longrightarrow> 2 \<le> length xs \<Longrightarrow> join sep xs \<noteq> []"
  by (induction sep xs rule: join.induct) auto

lemma writerow_fields:
  "2 \<le> length row \<Longrightarrow> writerow row = join '','' (map csv_field row) @ [CHR 0x0D, CHR 0x0A]"
  using join_two_not_empty [of "'',''" "map csv_field row"]
  by (simp add: writerow_def Let_def)

lemma csv_field_plain: "\<not> list_ex special s \<Longrightarrow> csv_field s = s"
  by (simp add: csv_field_def)

text \<open>Line breaks: the writer puts one at the end of each row and none inside a field.\<close>

lemma str_nat_digits: "set (str_nat n) \<subseteq> set ''0123456789''"
proof (induction n rule: str_nat.induct)
  case (1 n)
  show ?case
  proof (cases "n < 10")
    case True
    then have "''0123456789'' ! n \<in> set ''0123456789''" by (intro nth_mem) simp
    with True show ?thesis by (subst str_nat.simps) simp
  next
    case False
    have "n mod 10 < 10" by simp
    then have "''0123456789'' ! (n mod 10) \<in> set ''0123456789''" by (intro nth_mem) simp
    with False "1.IH" show ?thesis by (subst str_nat.simps) simp
  qed
qed

lemma str_int_no_line_break: "no_line_break (str_int i)"
  using str_nat_digits [of "nat i"] str_nat_digits [of "nat (- i)"]
  by (auto simp: str_int_def no_line_break_def)

lemma csv_field_no_line_break: "no_line_break s \<Longrightarrow> no_line_break (csv_field s)"
  by (auto simp: csv_field_def no_line_break_def split: if_splits)

lemma join_no_line_break:
  "no_line_break sep \<Longrightarrow> \<forall>x\<in>set xs. no_line_break x \<Longrightarrow> no_line_break (join sep xs)"
  by (induction sep xs rule: join.induct) (auto simp: no_line_break_def)

lemma text_lines_line:
  "no_line_break l \<Longrightarrow> text_lines (l @ CHR 0x0D # CHR 0x0A # rest) = l # text_lines rest"
proof (induction l)
  case Nil
  show ?case by simp
next
  case (Cons a l)
  then have "a \<noteq> CHR 0x0D" and "a \<noteq> CHR 0x0A" and "no_line_break l"
    by (auto simp: no_line_break_def)
  with Cons.IH show ?case by simp
qed

lemma text_lines_rows:
  "\<forall>l\<in>set ls. no_line_break l \<Longrightarrow>
   text_lines (concat (map (\<lambda>l. l @ [CHR 0x0D, CHR 0x0A]) ls)) = ls"
  by (induction ls) (simp_all add: text_lines_line)

lemma row_line_no_line_break:
  assumes "\<forall>x\<in>set row. no_line_break x"
  shows "no_line_break (join '','' (map csv_field row))"
proof (rule join_no_line_break)
  show "no_line_break '',''" by (simp add: no_line_break_def)
  show "\<forall>x\<in>set (map csv_field row). no_line_break x"
    using assms by (simp add: csv_field_no_line_break)
qed

lemma text_lines_written:
  assumes "\<forall>row\<in>set rs. \<forall>x\<in>set row. no_line_break x"
  shows "text_lines (concat (map (\<lambda>row. join '','' (map csv_field row) @ [CHR 0x0D, CHR 0x0A]) rs)) =
         map (\<lambda>row. join '','' (map csv_field row)) rs"
proof -
  have "\<forall>l\<in>set (map (\<lambda>row. join '','' (map csv_field row)) rs). no_line_break l"
    using assms by (simp add: row_line_no_line_break)
  from text_lines_rows [OF this] show ?thesis
    by (simp add: o_def)
qed

subsection \<open>The run\<close>

lemma main_resolver_fails:
  assumes "arg_token a = Some tok" and "tok \<noteq> []"
    and "find_producer_id cm api (arg_producer a) tok = Inl e"
  shows "\<exists>w'. main cm api a w = Some (Inl e, w') \<and> files w' = files w"
  using assms by (simp add: main_def Let_def)

lemma main_filter_fails:
  assumes "arg_token a = Some tok" and "tok \<noteq> []"
    and "find_producer_id cm api (arg_producer a) tok = Inr (pid, pname)"
    and "fetch_all_songs_for_artist api pid tok = Some (Inr song_list)"
    and "filter_songs_by_producer api song_list pid tok = Inl e"
  shows "\<exists>w'. main cm api a w = Some (Inl e, w') \<and> files w' = files w"
  using assms by (simp add: main_def Let_def)

lemma output_rows_lines:
  assumes "\<forall>(sid, d)\<in>set items.
       \<forall>x\<in>set (title d # artist_name (detail_artist d) # url d #
                 (case release_date d of None \<Rightarrow> [] | Some y \<Rightarrow> [y]) @
                 map artist_name (credits d)).
         no_line_break x"
    and "rows = map (\<lambda>(sid, d). [str_int sid, title d, artist_name (detail_artist d),
                    join ''; '' (map artist_name (credits d)),
                    (case release_date d of None \<Rightarrow> [] | Some x \<Rightarrow> x), url d]) items"
  shows "text_lines (concat (map (\<lambda>row. join '','' (map csv_field row) @ [CHR 0x0D, CHR 0x0A])
           ([''song_id'', ''title'', ''primary_artist'', ''producers'', ''release_date'', ''url''] # rows))) =
         map (\<lambda>row. join '','' (map csv_field row)) ([''song_id'', ''title'', ''primary_artist'', ''producers'', ''release_date'', ''url''] # rows)"
proof -
  have "\<forall>x\<in>set [str_int sid, title d, artist_name (detail_artist d),
                   join ''; '' (map artist_name (credits d)),
                   (case release_date d of None \<Rightarrow> [] | Some x \<Rightarrow> x), url d].
          no_line_break x"
    if "(sid, d) \<in> set items" for sid d
  proof -
    from assms(1) that have t: "no_line_break (title d)"
      and a: "no_line_break (artist_name (detail_artist d))"
      and u: "no_line_break (url d)"
      and r: "no_line_break (case release_date d of None \<Rightarrow> [] | Some x \<Rightarrow> x)"
      and c: "\<forall>x\<in>set (map artist_name (credits d)). no_line_break x"
      by (auto simp: no_line_break_def split: option.splits)
    have "no_line_break (join ''; '' (map artist_name (credits d)))"
      by (rule join_no_line_break [OF _ c]) (simp add: no_line_break_def)
    with t a u r show ?thesis by (simp add: str_int_no_line_break)
  qed
  then have fields: "\<forall>x\<in>set row. no_line_break x" if "row \<in> set rows" for row
    using that unfolding assms(2) by (auto simp del: set_simps)
  have "\<forall>x\<in>set [''song_id'', ''title'', ''primary_artist'', ''producers'', ''release_date'', ''url'']. no_line_break x"
    by (simp add: no_line_break_def)
  with fields have "\<forall>row\<in>set ([''song_id'', ''title'', ''primary_artist'', ''producers'', ''release_date'', ''url''] # rows). \<forall>x\<in>set row. no_line_break x"
    by (simp del: set_simps add: list.set(2))
  from text_lines_written [OF this] show ?thesis .
qed

text \<open>What the exporter writes for output records, whatever their texts.\<close>

lemma save_to_csv_written:
  assumes "items \<noteq> []" and "can_open w path"
    and "records = map (\<lambda>(sid, d). output_record sid d (map artist_name (credits d))) items"
    and "rows = map (\<lambda>(sid, d). [str_int sid, title d, artist_name (detail_artist d),
                    join ''; '' (map artist_name (credits d)),
                    (case release_date d of None \<Rightarrow> [] | Some x \<Rightarrow> x), url d]) items"
  shows "save_to_csv records path w =
       (Inr (), w\<lparr>files := (files w)(path \<mapsto>
          concat (map (\<lambda>row. join '','' (map csv_field row) @ [CHR 0x0D, CHR 0x0A])
                    (map fst (hd records) # rows)))\<rparr>) \<and>
     map fst (hd records) = [''song_id'', ''title'', ''primary_artist'', ''producers'', ''release_date'', ''url''] \<and>
     length (map fst (hd records) # rows) = length records + 1"
proof -
  obtain sid d rest where items: "items = (sid, d) # rest"
    using assms(1) by (cases items) auto
  have keys: "map fst (hd records) = [''song_id'', ''title'', ''primary_artist'', ''producers'', ''release_date'', ''url'']"
    by (simp add: assms(3) items keys_output_record)
  have len: "length (map fst (hd records) # rows) = length records + 1"
    by (simp add: assms(3) assms(4))
  have "\<forall>row\<in>set ([''song_id'', ''title'', ''primary_artist'', ''producers'', ''release_date'', ''url''] # rows). 2 \<le> length row"
    by (auto simp: assms(4))
  then have lines: "map writerow ([''song_id'', ''title'', ''primary_artist'', ''producers'', ''release_date'', ''url''] # rows) =
      map (\<lambda>row. join '','' (map csv_field row) @ [CHR 0x0D, CHR 0x0A])
        ([''song_id'', ''title'', ''primary_artist'', ''producers'', ''release_date'', ''url''] # rows)"
    by (intro map_cong refl writerow_fields) blast
  have wr: "save_to_csv records path w =
       (Inr (), w\<lparr>files := (files w)(path \<mapsto>
          concat (map (\<lambda>row. join '','' (map csv_field row) @ [CHR 0x0D, CHR 0x0A])
                    (map fst (hd records) # rows)))\<rparr>)"
    unfolding keys lines [symmetric] unfolding assms(3) assms(4)
    by (rule save_to_csv_output [OF assms(1) assms(2)])
  from wr keys len show ?thesis by (intro conjI)
qed

section \<open>The claims\<close>

text \<open>
  C1. When every detail fetch of a list of song stubs succeeds, the filter returns, for
  exactly the stubs whose detail lists the target producer identifier among its credits,
  the projected output record, one for each such stub and in the order of the stubs.
\<close>

theorem filter_songs_by_producer_iff:
  assumes "\<forall>s\<in>set song_list.
             request_genius (\<lambda>t. song api t (stub_id s)) tok = Inr (detail (stub_id s))"
  shows "filter_songs_by_producer api song_list producer_id tok =
     Inr (map (\<lambda>s. output_record (stub_id s) (detail (stub_id s))
                      (map artist_name (credits (detail (stub_id s)))))
            (filter (\<lambda>s. producer_id \<in> set (map artist_id (credits (detail (stub_id s)))))
               song_list))"
  using filter_loop_all_fetched [OF assms, of producer_id "[]"]
  by (simp add: filter_songs_by_producer_def)

theorem filter_songs_by_producer_iff_witness:
  "request_genius (\<lambda>t. song scenario t 1) ''tok'' = Inr song1 \<and>
   request_genius (\<lambda>t. song scenario t 2) ''tok'' = Inr song2 \<and>
   request_genius (\<lambda>t. song scenario t 3) ''tok'' = Inr song3 \<and>
   filter_songs_by_producer scenario [\<lparr>stub_id = 1\<rparr>, \<lparr>stub_id = 2\<rparr>, \<lparr>stub_id = 3\<rparr>] 42 ''tok'' =
     Inr [output_record 1 song1 [''Metro Boomin''],
          output_record 3 song3 [''Mike Dean'', ''Metro Boomin'']]"
proof -
  have h: "\<forall>s\<in>set [\<lparr>stub_id = 1\<rparr>, \<lparr>stub_id = 2\<rparr>, \<lparr>stub_id = 3\<rparr>].
      request_genius (\<lambda>t. song scenario t (stub_id s)) ''tok'' = Inr (details (stub_id s))"
    by (simp add: scenario_def request_genius_def raise_for_status_def details_def)
  have r: "map (\<lambda>s. output_record (stub_id s) (details (stub_id s))
                      (map artist_name (credits (details (stub_id s)))))
             (filter (\<lambda>s. 42 \<in> set (map artist_id (credits (details (stub_id s)))))
                [\<lparr>stub_id = 1\<rparr>, \<lparr>stub_id = 2\<rparr>, \<lparr>stub_id = 3\<rparr>]) =
           [output_record 1 song1 [''Metro Boomin''],
            output_record 3 song3 [''Mike Dean'', ''Metro Boomin'']]"
    by code_simp
  from filter_songs_by_producer_iff [OF h, of 42] r
  have "filter_songs_by_producer scenario
          [\<lparr>stub_id = 1\<rparr>, \<lparr>stub_id = 2\<rparr>, \<lparr>stub_id = 3\<rparr>] 42 ''tok'' =
        Inr [output_record 1 song1 [''Metro Boomin''],
             output_record 3 song3 [''Mike Dean'', ''Metro Boomin'']]"
    by (simp only:)
  moreover from h have "request_genius (\<lambda>t. song scenario t 1) ''tok'' = Inr song1"
    and "request_genius (\<lambda>t. song scenario t 2) ''tok'' = Inr song2"
    and "request_genius (\<lambda>t. song scenario t 3) ''tok'' = Inr song3"
    by (simp_all add: details_def)
  ultimately show ?thesis by (intro conjI)
qed

text \<open>
  C2. When the pages 1 to \<open>k - 1\<close> of an artist's songs hold items and the page \<open>k\<close> is
  the first empty one, the paginator returns the items of the pages 1, 2, ... \<open>k - 1\<close>
  one after the other, each page in the order the API gave: nothing is left out and
  nothing comes twice, and the empty page adds nothing.
\<close>

theorem fetch_all_songs_for_artist_concat:
  assumes "1 \<le> k"
    and "\<forall>p. 1 \<le> p \<and> p < k \<longrightarrow>
           request_genius (\<lambda>t. artist_songs api t artist 50 p) tok = Inr (pages p) \<and>
           pages p \<noteq> []"
    and "request_genius (\<lambda>t. artist_songs api t artist 50 k) tok = Inr []"
  shows "fetch_all_songs_for_artist api artist tok = Some (Inr (concat (map pages [1..<k])))"
  using fetch_pages_concat [OF assms(2) assms(3) assms(1), of "[]"]
  by (simp add: fetch_all_songs_for_artist_def)

theorem fetch_all_songs_for_artist_concat_witness:
  "request_genius (\<lambda>t. artist_songs scenario t 42 50 1) ''tok'' =
     Inr [\<lparr>stub_id = 1\<rparr>, \<lparr>stub_id = 2\<rparr>] \<and>
   request_genius (\<lambda>t. artist_songs scenario t 42 50 2) ''tok'' = Inr [\<lparr>stub_id = 3\<rparr>] \<and>
   request_genius (\<lambda>t. artist_songs scenario t 42 50 3) ''tok'' = Inr [] \<and>
   fetch_all_songs_for_artist scenario 42 ''tok'' =
     Some (Inr [\<lparr>stub_id = 1\<rparr>, \<lparr>stub_id = 2\<rparr>, \<lparr>stub_id = 3\<rparr>])"
proof -
  have h1: "(1::nat) \<le> 3" by simp
  have h2: "\<forall>p. 1 \<le> p \<and> p < 3 \<longrightarrow>
      request_genius (\<lambda>t. artist_songs scenario t 42 50 p) ''tok'' =
        Inr ((\<lambda>p. if p = 1 then [\<lparr>stub_id = 1\<rparr>, \<lparr>stub_id = 2\<rparr>] else [\<lparr>stub_id = 3\<rparr>]) p) \<and>
      (\<lambda>p. if p = 1 then [\<lparr>stub_id = 1\<rparr>, \<lparr>stub_id = 2\<rparr>] else [\<lparr>stub_id = 3\<rparr>]) p \<noteq> []"
    by (auto simp: scenario_def request_genius_def raise_for_status_def)
  have h3: "request_genius (\<lambda>t. artist_songs scenario t 42 50 3) ''tok'' = Inr []"
    by (simp add: scenario_def request_genius_def raise_for_status_def)
  have p1: "request_genius (\<lambda>t. artist_songs scenario t 42 50 1) ''tok'' =
              Inr [\<lparr>stub_id = 1\<rparr>, \<lparr>stub_id = 2\<rparr>]"
    and p2: "request_genius (\<lambda>t. artist_songs scenario t 42 50 2) ''tok'' =
              Inr [\<lparr>stub_id = 3\<rparr>]"
    by (simp_all add: scenario_def request_genius_def raise_for_status_def)
  have "[1..<3] = [1, 2::nat]" by (simp add: upt_rec)
  with fetch_all_songs_for_artist_concat [OF h1 h2 h3]
  have "fetch_all_songs_for_artist scenario 42 ''tok'' =
          Some (Inr [\<lparr>stub_id = 1\<rparr>, \<lparr>stub_id = 2\<rparr>, \<lparr>stub_id = 3\<rparr>])"
    by simp
  with p1 p2 h3 show ?thesis by (intro conjI)
qed



text \<open>
  C4, as the code has it. The records are the output records of a non-empty list of
  songs (identifier and detail), the path can be opened, and no text of the songs (title,
  artist name, release date, URL, producer names) holds a carriage return or a line feed.
  Then the exporter returns normally, and the lines of the file are as many as the
  records, and one: first the line of the field names, which are the keys of the first
  record in its order, then one line for each record, in the order of the records. A
  line is the fields of the row, each as \<^const>\<open>csv_field\<close> writes it (in quotes when it
  holds a comma or a quote), with commas between. The fourth field of a record's line is
  the names of the record's credited producers, in their order, joined by a semicolon
  and a space.
\<close>

theorem save_to_csv_lines:
  assumes "items \<noteq> []" and "can_open w path"
    and "records = map (\<lambda>(sid, d). output_record sid d (map artist_name (credits d))) items"
    and "rows = map (\<lambda>(sid, d). [str_int sid, title d, artist_name (detail_artist d),
                    join ''; '' (map artist_name (credits d)),
                    (case release_date d of None \<Rightarrow> [] | Some x \<Rightarrow> x), url d]) items"
    and "\<forall>(sid, d)\<in>set items.
       \<forall>x\<in>set (title d # artist_name (detail_artist d) # url d #
                 (case release_date d of None \<Rightarrow> [] | Some y \<Rightarrow> [y]) @
                 map artist_name (credits d)).
         no_line_break x"
  shows "save_to_csv records path w =
       (Inr (), w\<lparr>files := (files w)(path \<mapsto>
          concat (map (\<lambda>row. join '','' (map csv_field row) @ [CHR 0x0D, CHR 0x0A])
                    (map fst (hd records) # rows)))\<rparr>) \<and>
     map fst (hd records) = [''song_id'', ''title'', ''primary_artist'', ''producers'', ''release_date'', ''url''] \<and>
     text_lines (concat (map (\<lambda>row. join '','' (map csv_field row) @ [CHR 0x0D, CHR 0x0A])
                           (map fst (hd records) # rows))) =
       map (\<lambda>row. join '','' (map csv_field row)) (map fst (hd records) # rows) \<and>
     length (text_lines (concat (map (\<lambda>row. join '','' (map csv_field row) @ [CHR 0x0D, CHR 0x0A])
                                   (map fst (hd records) # rows)))) =
       length records + 1"
proof -
  note written = save_to_csv_written [OF assms(1) assms(2) assms(3) assms(4)]
  note keys = written [THEN conjunct2, THEN conjunct1]
  have lines: "text_lines (concat (map (\<lambda>row. join '','' (map csv_field row) @ [CHR 0x0D, CHR 0x0A])
                           (map fst (hd records) # rows))) =
       map (\<lambda>row. join '','' (map csv_field row)) (map fst (hd records) # rows)"
    unfolding keys by (rule output_rows_lines [OF assms(5) assms(4)])
  have "length (text_lines (concat (map (\<lambda>row. join '','' (map csv_field row) @ [CHR 0x0D, CHR 0x0A])
                                   (map fst (hd records) # rows)))) =
       length records + 1"
    unfolding lines by (simp add: assms(3) assms(4))
  with written [THEN conjunct1] keys lines show ?thesis by (intro conjI)
qed

theorem save_to_csv_lines_witness:
  "can_open nothing ''out.csv'' \<and>
   save_to_csv (map (\<lambda>(sid, d). output_record sid d (map artist_name (credits d)))
                  [(1, song1), (3, song3)]) ''out.csv'' nothing =
     (Inr (), nothing\<lparr>files := (files nothing)(''out.csv'' \<mapsto>
         ''song_id,title,primary_artist,producers,release_date,url'' @ [CHR 0x0D, CHR 0x0A] @
         ''1,Mask Off,Future,Metro Boomin,2017-02-17,https://genius.com/1'' @ [CHR 0x0D, CHR 0x0A] @
         ''3,'' @ [CHR 0x22] @ ''Runnin, Again'' @ [CHR 0x22] @
            '',21 Savage,Mike Dean; Metro Boomin,,https://genius.com/3'' @ [CHR 0x0D, CHR 0x0A])\<rparr>) \<and>
   text_lines
        (''song_id,title,primary_artist,producers,release_date,url'' @ [CHR 0x0D, CHR 0x0A] @
         ''1,Mask Off,Future,Metro Boomin,2017-02-17,https://genius.com/1'' @ [CHR 0x0D, CHR 0x0A] @
         ''3,'' @ [CHR 0x22] @ ''Runnin, Again'' @ [CHR 0x22] @
            '',21 Savage,Mike Dean; Metro Boomin,,https://genius.com/3'' @ [CHR 0x0D, CHR 0x0A]) =
     [''song_id,title,primary_artist,producers,release_date,url'',
      ''1,Mask Off,Future,Metro Boomin,2017-02-17,https://genius.com/1'',
      ''3,'' @ [CHR 0x22] @ ''Runnin, Again'' @ [CHR 0x22] @
            '',21 Savage,Mike Dean; Metro Boomin,,https://genius.com/3''] \<and>
   length (text_lines
        (''song_id,title,primary_artist,producers,release_date,url'' @ [CHR 0x0D, CHR 0x0A] @
         ''1,Mask Off,Future,Metro Boomin,2017-02-17,https://genius.com/1'' @ [CHR 0x0D, CHR 0x0A] @
         ''3,'' @ [CHR 0x22] @ ''Runnin, Again'' @ [CHR 0x22] @
            '',21 Savage,Mike Dean; Metro Boomin,,https://genius.com/3'' @ [CHR 0x0D, CHR 0x0A])) = 3"
proof -
  let ?items = "[(1::int, song1), (3, song3)]"
  let ?records = "map (\<lambda>(sid, d). output_record sid d (map artist_name (credits d))) ?items"
  let ?rows = "map (\<lambda>(sid, d). [str_int sid, title d, artist_name (detail_artist d),
                    join ''; '' (map artist_name (credits d)),
                    (case release_date d of None \<Rightarrow> [] | Some x \<Rightarrow> x), url d]) ?items"
  have h1: "?items \<noteq> []" by simp
  have h2: "can_open nothing ''out.csv''" by (simp add: nothing_def)
  have h5: "\<forall>(sid, d)\<in>set ?items.
       \<forall>x\<in>set (title d # artist_name (detail_artist d) # url d #
                 (case release_date d of None \<Rightarrow> [] | Some y \<Rightarrow> [y]) @
                 map artist_name (credits d)).
         no_line_break x"
    by code_simp
  have c: "concat (map (\<lambda>row. join '','' (map csv_field row) @ [CHR 0x0D, CHR 0x0A])
                    ([''song_id'', ''title'', ''primary_artist'', ''producers'', ''release_date'', ''url''] # ?rows)) =
           ''song_id,title,primary_artist,producers,release_date,url'' @ [CHR 0x0D, CHR 0x0A] @
         ''1,Mask Off,Future,Metro Boomin,2017-02-17,https://genius.com/1'' @ [CHR 0x0D, CHR 0x0A] @
         ''3,'' @ [CHR 0x22] @ ''Runnin, Again'' @ [CHR 0x22] @
            '',21 Savage,Mike Dean; Metro Boomin,,https://genius.com/3'' @ [CHR 0x0D, CHR 0x0A]"
    by code_simp
  have b: "map (\<lambda>row. join '','' (map csv_field row)) ([''song_id'', ''title'', ''primary_artist'', ''producers'', ''release_date'', ''url''] # ?rows) =
     [''song_id,title,primary_artist,producers,release_date,url'',
      ''1,Mask Off,Future,Metro Boomin,2017-02-17,https://genius.com/1'',
      ''3,'' @ [CHR 0x22] @ ''Runnin, Again'' @ [CHR 0x22] @
            '',21 Savage,Mike Dean; Metro Boomin,,https://genius.com/3'']"
    by code_simp
  have l: "length ?records + 1 = 3" by simp
  note all = save_to_csv_lines [OF h1 h2 refl refl h5]
  note 1 = all [THEN conjunct1]
  note 2 = all [THEN conjunct2, THEN conjunct1]
  note 3 = all [THEN conjunct2, THEN conjunct2, THEN conjunct1]
  note 4 = all [THEN conjunct2, THEN conjunct2, THEN conjunct2]
  note 1 [unfolded 2 c] 3 [unfolded 2 c b] 4 [unfolded 2 c l]
  with h2 show ?thesis by (intro conjI)
qed

text \<open>
  C4, as the claim has it, fails. The one record of a song whose title holds a line feed
  is written as a header line and a row in which the title stands in quotes with its
  line feed, so the file has three lines for one record, not two.
\<close>

theorem save_to_csv_line_count_counterexample:
  "files (snd (save_to_csv [output_record 5 song5 (map artist_name (credits song5))] ''out.csv'' nothing)) ''out.csv'' =
     Some (''song_id,title,primary_artist,producers,release_date,url'' @ [CHR 0x0D, CHR 0x0A] @
         ''5,'' @ [CHR 0x22] @ ''Intro'' @ [CHR 0x0A] @ ''Outro'' @ [CHR 0x22] @
         '',Future,Metro Boomin,,https://genius.com/5'' @ [CHR 0x0D, CHR 0x0A]) \<and>
   length (text_lines
        (''song_id,title,primary_artist,producers,release_date,url'' @ [CHR 0x0D, CHR 0x0A] @
         ''5,'' @ [CHR 0x22] @ ''Intro'' @ [CHR 0x0A] @ ''Outro'' @ [CHR 0x22] @
         '',Future,Metro Boomin,,https://genius.com/5'' @ [CHR 0x0D, CHR 0x0A])) = 3 \<and>
   length (text_lines
        (''song_id,title,primary_artist,producers,release_date,url'' @ [CHR 0x0D, CHR 0x0A] @
         ''5,'' @ [CHR 0x22] @ ''Intro'' @ [CHR 0x0A] @ ''Outro'' @ [CHR 0x22] @
         '',Future,Metro Boomin,,https://genius.com/5'' @ [CHR 0x0D, CHR 0x0A])) \<noteq>
     length [output_record 5 song5 (map artist_name (credits song5))] + 1"
proof -
  have "files (snd (save_to_csv [output_record 5 song5 (map artist_name (credits song5))] ''out.csv'' nothing)) ''out.csv'' =
     Some (''song_id,title,primary_artist,producers,release_date,url'' @ [CHR 0x0D, CHR 0x0A] @
         ''5,'' @ [CHR 0x22] @ ''Intro'' @ [CHR 0x0A] @ ''Outro'' @ [CHR 0x22] @
         '',Future,Metro Boomin,,https://genius.com/5'' @ [CHR 0x0D, CHR 0x0A])"
    by code_simp
  moreover have "length (text_lines
        (''song_id,title,primary_artist,producers,release_date,url'' @ [CHR 0x0D, CHR 0x0A] @
         ''5,'' @ [CHR 0x22] @ ''Intro'' @ [CHR 0x0A] @ ''Outro'' @ [CHR 0x22] @
         '',Future,Metro Boomin,,https://genius.com/5'' @ [CHR 0x0D, CHR 0x0A])) = 3"
    by code_simp
  ultimately show ?thesis by simp
qed

text \<open>
  C5. When the detail fetch of any one stub of the list fails, the filter ends with a
  transport error and returns no list. A run whose catalog is that list ends with the
  same error, and the files are as they were before the run: the exporter is not reached.
\<close>

theorem filter_songs_by_producer_all_or_nothing:
  assumes "s \<in> set song_list"
    and "request_genius (\<lambda>t. song api t (stub_id s)) tok = Inl e"
  shows "\<exists>e'. transport_error e' \<and>
           filter_songs_by_producer api song_list pid tok = Inl e' \<and>
           (\<forall>a w pname.
              arg_token a = Some tok \<and> tok \<noteq> [] \<and>
              find_producer_id cm api (arg_producer a) tok = Inr (pid, pname) \<and>
              fetch_all_songs_for_artist api pid tok = Some (Inr song_list) \<longrightarrow>
              (\<exists>w'. main cm api a w = Some (Inl e', w') \<and> files w' = files w))"
proof -
  from filter_loop_failure [OF assms, of pid "[]"] obtain e'
    where e': "filter_songs_by_producer api song_list pid tok = Inl e'"
      and t: "transport_error e'"
    by (auto simp: filter_songs_by_producer_def)
  have "\<exists>w'. main cm api a w = Some (Inl e', w') \<and> files w' = files w"
    if "arg_token a = Some tok" "tok \<noteq> []"
      "find_producer_id cm api (arg_producer a) tok = Inr (pid, pname)"
      "fetch_all_songs_for_artist api pid tok = Some (Inr song_list)" for a w pname
    using main_filter_fails [OF that e'] .
  with e' t show ?thesis by blast
qed

theorem filter_songs_by_producer_all_or_nothing_witness:
  "\<lparr>stub_id = 4\<rparr> \<in> set [\<lparr>stub_id = 1\<rparr>, \<lparr>stub_id = 4\<rparr>] \<and>
   request_genius (\<lambda>t. song scenario t (stub_id \<lparr>stub_id = 4\<rparr>)) ''tok'' = Inl (HTTPError 503) \<and>
   filter_songs_by_producer scenario [\<lparr>stub_id = 1\<rparr>, \<lparr>stub_id = 4\<rparr>] 7 ''tok'' =
     Inl (HTTPError 503) \<and>
   (\<exists>w'. main ascii_casemap scenario \<lparr>arg_producer = ''mike'', arg_token = Some ''tok'', arg_output = ''out.csv''\<rparr>
            nothing = Some (Inl (HTTPError 503), w') \<and>
         files w' = files nothing)"
proof -
  let ?a = "\<lparr>arg_producer = ''mike'', arg_token = Some ''tok'', arg_output = ''out.csv''\<rparr>"
  have h1: "\<lparr>stub_id = 4\<rparr> \<in> set [\<lparr>stub_id = 1\<rparr>, \<lparr>stub_id = 4\<rparr>]" by simp
  have h2: "request_genius (\<lambda>t. song scenario t (stub_id \<lparr>stub_id = 4\<rparr>)) ''tok'' =
              Inl (HTTPError 503)"
    by (simp add: scenario_def request_genius_def raise_for_status_def)
  have h3: "arg_token ?a = Some ''tok'' \<and> ''tok'' \<noteq> [] \<and>
            find_producer_id ascii_casemap scenario (arg_producer ?a) ''tok'' = Inr (7, ''Mike Dean'') \<and>
            fetch_all_songs_for_artist scenario 7 ''tok'' =
              Some (Inr [\<lparr>stub_id = 1\<rparr>, \<lparr>stub_id = 4\<rparr>])"
    by code_simp
  have f: "filter_songs_by_producer scenario [\<lparr>stub_id = 1\<rparr>, \<lparr>stub_id = 4\<rparr>] 7 ''tok'' =
             Inl (HTTPError 503)"
    by code_simp
  from filter_songs_by_producer_all_or_nothing [OF h1 h2, of 7] obtain e'
    where "filter_songs_by_producer scenario [\<lparr>stub_id = 1\<rparr>, \<lparr>stub_id = 4\<rparr>] 7 ''tok'' = Inl e'"
      and m: "\<forall>a w pname.
              arg_token a = Some ''tok'' \<and> ''tok'' \<noteq> [] \<and>
              find_producer_id ascii_casemap scenario (arg_producer a) ''tok'' = Inr (7, pname) \<and>
              fetch_all_songs_for_artist scenario 7 ''tok'' =
                Some (Inr [\<lparr>stub_id = 1\<rparr>, \<lparr>stub_id = 4\<rparr>]) \<longrightarrow>
              (\<exists>w'. main ascii_casemap scenario a w = Some (Inl e', w') \<and> files w' = files w)"
    by blast
  with f have "e' = HTTPError 503" by simp
  with m h3 have "\<exists>w'. main ascii_casemap scenario ?a nothing = Some (Inl (HTTPError 503), w') \<and>
                    files w' = files nothing"
    by blast
  with h1 h2 f show ?thesis by (intro conjI)
qed

text \<open>
  C6. When the search succeeds and no hit's primary artist's name holds the given name as
  a substring, both put in lower case by \<^verbatim>\<open>str.lower\<close> with whatever case mapping \<open>cm\<close>
  (also when there is no hit), the resolver raises the
  \<^verbatim>\<open>ValueError\<close> whose message quotes the name. The run ends with that error, and the files
  are as they were before the run.
\<close>

theorem find_producer_id_not_found:
  assumes "request_genius (\<lambda>t. search api t (arg_producer a)) tok = Inr hits"
    and "\<forall>h\<in>set hits.
           \<not> sublist (lower cm (arg_producer a)) (lower cm (artist_name (primary_artist h)))"
    and "arg_token a = Some tok" and "tok \<noteq> []"
  shows "find_producer_id cm api (arg_producer a) tok =
           Inl (ValueError (''No producer artist found for '' @ apos @ arg_producer a @ apos)) \<and>
         (\<exists>w'. main cm api a w =
                  Some (Inl (ValueError
                    (''No producer artist found for '' @ apos @ arg_producer a @ apos)), w') \<and>
                files w' = files w)"
proof -
  have f: "find_producer_id cm api (arg_producer a) tok =
           Inl (ValueError (''No producer artist found for '' @ apos @ arg_producer a @ apos))"
    using assms(1) find_hit_none [OF assms(2)]
    by (simp add: find_producer_id_def apos_def)
  from f main_resolver_fails [OF assms(3) assms(4) f] show ?thesis by (intro conjI)
qed

theorem find_producer_id_not_found_witness:
  "request_genius
     (\<lambda>t. search scenario t
        (arg_producer \<lparr>arg_producer = ''Zaytoven'', arg_token = Some ''tok'', arg_output = ''out.csv''\<rparr>))
     ''tok'' =
     Inr [\<lparr>primary_artist = dean\<rparr>, \<lparr>primary_artist = metro\<rparr>,
          \<lparr>primary_artist = \<lparr>artist_id = 99, artist_name = ''Young Metro''\<rparr>\<rparr>] \<and>
   find_producer_id ascii_casemap scenario ''Zaytoven'' ''tok'' =
     Inl (ValueError (''No producer artist found for '' @ apos @ ''Zaytoven'' @ apos)) \<and>
   (\<exists>w'. main ascii_casemap scenario \<lparr>arg_producer = ''Zaytoven'', arg_token = Some ''tok'', arg_output = ''out.csv''\<rparr>
            nothing =
            Some (Inl (ValueError (''No producer artist found for '' @ apos @ ''Zaytoven'' @ apos)), w') \<and>
          files w' = files nothing)"
proof -
  let ?a = "\<lparr>arg_producer = ''Zaytoven'', arg_token = Some ''tok'', arg_output = ''out.csv''\<rparr>"
  let ?hits = "[\<lparr>primary_artist = dean\<rparr>, \<lparr>primary_artist = metro\<rparr>,
                \<lparr>primary_artist = \<lparr>artist_id = 99, artist_name = ''Young Metro''\<rparr>\<rparr>]"
  have h1: "request_genius (\<lambda>t. search scenario t (arg_producer ?a)) ''tok'' = Inr ?hits"
    by (simp add: scenario_def request_genius_def raise_for_status_def)
  have h2: "\<forall>h\<in>set ?hits.
              \<not> sublist (lower ascii_casemap (arg_producer ?a)) (lower ascii_casemap (artist_name (primary_artist h)))"
    by code_simp
  have h3: "arg_token ?a = Some ''tok''" by simp
  have h4: "''tok'' \<noteq> []" by simp
  from find_producer_id_not_found [OF h1 h2 h3 h4, of nothing] h1
  show ?thesis by simp
qed

text \<open>
  C7. For the empty list of records the exporter opens no file: the files are as they
  were, whatever the path, and the one thing done is the printing of the line
  \<^verbatim>\<open>No records to write.\<close>
\<close>

theorem save_to_csv_empty:
  "save_to_csv [] path w = (Inr (), w\<lparr>stdout := stdout w @ [''No records to write.'']\<rparr>) \<and>
   files (snd (save_to_csv [] path w)) = files w \<and>
   stdout (snd (save_to_csv [] path w)) = stdout w @ [''No records to write.'']"
  by (simp add: save_to_csv_def print_def)

theorem save_to_csv_empty_witness:
  "save_to_csv [] ''out.csv'' nothing =
     (Inr (), nothing\<lparr>stdout := [''No records to write.'']\<rparr>) \<and>
   files (snd (save_to_csv [] ''out.csv'' nothing)) ''out.csv'' = None"
  using save_to_csv_empty [of "''out.csv''" nothing]
  by (simp add: nothing_def)

text \<open>
  C8. When from some page \<open>n\<close> on every page of the artist's songs is empty, the loop of
  the paginator ends: the call returns. When no page before \<open>n\<close> fails, what it returns is
  a list of songs.
\<close>

theorem fetch_all_songs_for_artist_terminates:
  assumes "1 \<le> n"
    and "\<forall>m\<ge>n. request_genius (\<lambda>t. artist_songs api t artist 50 m) tok = Inr []"
  shows "(\<exists>r. fetch_all_songs_for_artist api artist tok = Some r) \<and>
         ((\<forall>p. 1 \<le> p \<and> p < n \<longrightarrow>
             (\<exists>songs. request_genius (\<lambda>t. artist_songs api t artist 50 p) tok = Inr songs)) \<longrightarrow>
          (\<exists>songs. fetch_all_songs_for_artist api artist tok = Some (Inr songs)))"
proof -
  from assms(2) have here: "request_genius (\<lambda>t. artist_songs api t artist 50 n) tok = Inr []"
    by simp
  show ?thesis
    unfolding fetch_all_songs_for_artist_def
    using fetch_pages_returns [OF here assms(1)] fetch_pages_returns_list [OF here _ assms(1)]
    by blast
qed

theorem fetch_all_songs_for_artist_terminates_witness:
  "request_genius (\<lambda>t. artist_songs scenario t 42 50 3) ''tok'' = Inr [] \<and>
   request_genius (\<lambda>t. artist_songs scenario t 42 50 4) ''tok'' = Inr [] \<and>
   (\<exists>r. fetch_all_songs_for_artist scenario 42 ''tok'' = Some r) \<and>
   (\<exists>songs. fetch_all_songs_for_artist scenario 42 ''tok'' = Some (Inr songs))"
proof -
  have h1: "(1::nat) \<le> 3" by simp
  have h2: "\<forall>m\<ge>3. request_genius (\<lambda>t. artist_songs scenario t 42 50 m) ''tok'' = Inr []"
    by (auto simp: scenario_def request_genius_def raise_for_status_def)
  have h3: "\<forall>p. 1 \<le> p \<and> p < 3 \<longrightarrow>
      (\<exists>songs. request_genius (\<lambda>t. artist_songs scenario t 42 50 p) ''tok'' = Inr songs)"
    by (auto simp: scenario_def request_genius_def raise_for_status_def)
  from h2 have "request_genius (\<lambda>t. artist_songs scenario t 42 50 3) ''tok'' = Inr []"
    and "request_genius (\<lambda>t. artist_songs scenario t 42 50 4) ''tok'' = Inr []"
    by simp_all
  moreover from fetch_all_songs_for_artist_terminates [OF h1 h2] h3
  have "\<exists>r. fetch_all_songs_for_artist scenario 42 ''tok'' = Some r"
    and "\<exists>songs. fetch_all_songs_for_artist scenario 42 ''tok'' = Some (Inr songs)"
    by blast+
  ultimately show ?thesis by (intro conjI)
qed

text \<open>
  C9. A song whose detail has no \<^verbatim>\<open>producer_artists\<close> key is taken as a song without
  credits: alone, it gives the empty result and no error, and in any list the result is
  what it is without that song.
\<close>

theorem filter_songs_by_producer_missing_credits:
  assumes "request_genius (\<lambda>t. song api t (stub_id s)) tok = Inr d"
    and "producer_artists d = None"
  shows "filter_songs_by_producer api [s] pid tok = Inr [] \<and>
         filter_songs_by_producer api (xs @ s # ys) pid tok =
           filter_songs_by_producer api (xs @ ys) pid tok"
  using filter_loop_skip [OF assms, of pid "[]" "[]" "[]"] filter_loop_skip [OF assms, of pid xs ys "[]"]
  by (simp add: filter_songs_by_producer_def)

theorem filter_songs_by_producer_missing_credits_witness:
  "request_genius (\<lambda>t. song scenario t (stub_id \<lparr>stub_id = 2\<rparr>)) ''tok'' = Inr song2 \<and>
   producer_artists song2 = None \<and>
   filter_songs_by_producer scenario [\<lparr>stub_id = 2\<rparr>] 42 ''tok'' = Inr [] \<and>
   filter_songs_by_producer scenario ([\<lparr>stub_id = 1\<rparr>] @ \<lparr>stub_id = 2\<rparr> # [\<lparr>stub_id = 3\<rparr>]) 42 ''tok'' =
     filter_songs_by_producer scenario ([\<lparr>stub_id = 1\<rparr>] @ [\<lparr>stub_id = 3\<rparr>]) 42 ''tok''"
proof -
  have h1: "request_genius (\<lambda>t. song scenario t (stub_id \<lparr>stub_id = 2\<rparr>)) ''tok'' = Inr song2"
    by (simp add: scenario_def request_genius_def raise_for_status_def)
  have h2: "producer_artists song2 = None"
    by (simp add: song2_def)
  from filter_songs_by_producer_missing_credits
         [OF h1 h2, of 42 "[\<lparr>stub_id = 1\<rparr>]" "[\<lparr>stub_id = 3\<rparr>]"] h1 h2
  show ?thesis by (intro conjI) (simp_all only:)
qed

text \<open>
  C10. With the empty string as the producer name and at least one search hit, the
  resolver returns the artist of the first hit: the empty string is a substring of every
  name, and nothing rejects an empty name.
\<close>

theorem find_producer_id_empty_name:
  assumes "request_genius (\<lambda>t. search api t []) tok = Inr (hit # hits)"
  shows "find_producer_id cm api [] tok =
     Inr (artist_id (primary_artist hit), artist_name (primary_artist hit))"
  using assms by (simp add: find_producer_id_def lower_def Let_def)

theorem find_producer_id_empty_name_witness:
  "request_genius (\<lambda>t. search scenario t []) ''tok'' =
     Inr (\<lparr>primary_artist = dean\<rparr> #
          [\<lparr>primary_artist = metro\<rparr>,
           \<lparr>primary_artist = \<lparr>artist_id = 99, artist_name = ''Young Metro''\<rparr>\<rparr>]) \<and>
   find_producer_id ascii_casemap scenario [] ''tok'' = Inr (7, ''Mike Dean'')"
proof -
  have h: "request_genius (\<lambda>t. search scenario t []) ''tok'' =
     Inr (\<lparr>primary_artist = dean\<rparr> #
          [\<lparr>primary_artist = metro\<rparr>,
           \<lparr>primary_artist = \<lparr>artist_id = 99, artist_name = ''Young Metro''\<rparr>\<rparr>])"
    by (simp add: scenario_def request_genius_def raise_for_status_def)
  from find_producer_id_empty_name [OF h] h
  show ?thesis by (simp add: dean_def)
qed

end
